theory Spec2Isabelle
  imports Main
begin

section \<open>The script generate-sitemap.js\<close>

text \<open>
  The repository is one Node.js script. Its first half creates a crawler
  (\<^verbatim>\<open>sitemap-generator\<close>), registers four listeners on it and starts it; its second half
  reads \<^verbatim>\<open>sitemap.xml\<close>, parses it with \<^verbatim>\<open>xmldom\<close>, collects the text of every
  \<^verbatim>\<open>loc\<close> element and writes the list to \<^verbatim>\<open>angular-docs-urls.txt\<close>.

  The statements of the script are embedded as functions on an explicit \<open>world\<close>
  (files, console, the generator's listener table). The two libraries are not part of
  the repository: the XML parser is a parameter of the model, and the DOM operations the
  script calls (\<^verbatim>\<open>getElementsByTagName\<close>, \<^verbatim>\<open>textContent\<close>) and the event delivery of the
  crawler follow the documented contracts of these interfaces.
\<close>

subsection \<open>DOM trees\<close>

text \<open>
  A node of the DOM. An element carries its namespace URI and prefix (both may be
  \<^verbatim>\<open>null\<close>), its local name, its attributes and its children.
\<close>

datatype node =
    Element "string option" "string option" string "(string \<times> string) list" "node list"
  | Text string
  | CDATASection string
  | Comment string
  | ProcessingInstruction string string

datatype document = Document "node list"


fun localName :: "node \<Rightarrow> string option" where
  "localName (Element ns p l as cs) = Some l"
| "localName _ = None"

text \<open>The tag name of an element is its qualified name: \<^verbatim>\<open>prefix:localName\<close>, or the
  local name alone when there is no prefix. Other nodes have none.\<close>

fun tagName :: "node \<Rightarrow> string option" where
  "tagName (Element ns None l as cs) = Some l"
| "tagName (Element ns (Some p) l as cs) = Some (p @ '':'' @ l)"
| "tagName _ = None"


text \<open>
  \<^verbatim>\<open>node.textContent\<close>: for an element, the concatenation of the text content of its
  children, skipping comments and processing instructions; for any other node, its data.
\<close>

fun textContent :: "node \<Rightarrow> string" where
  "textContent (Element ns p l as cs) =
     concat (map (\<lambda>c. case c of
                        Comment d \<Rightarrow> []
                      | ProcessingInstruction t d \<Rightarrow> []
                      | _ \<Rightarrow> textContent c) cs)"
| "textContent (Text d) = d"
| "textContent (CDATASection d) = d"
| "textContent (Comment d) = d"
| "textContent (ProcessingInstruction t d) = d"

text \<open>
  \<^verbatim>\<open>getElementsByTagName(name)\<close>: the descendant elements, in document order (preorder),
  whose tag name is \<open>name\<close>; the name \<^verbatim>\<open>*\<close> matches every element. \<open>visit\<close> walks one
  subtree, the node itself first.
\<close>

fun visit :: "string \<Rightarrow> node \<Rightarrow> node list" where
  "visit name (Element ns p l as cs) =
     (if name = ''*'' \<or> tagName (Element ns p l as cs) = Some name
      then [Element ns p l as cs] else [])
     @ concat (map (visit name) cs)"
| "visit name _ = []"

fun getElementsByTagName :: "document \<Rightarrow> string \<Rightarrow> node list" where
  "getElementsByTagName (Document cs) name = concat (map (visit name) cs)"

text \<open>All nodes below a node, and below the document, in document order.\<close>

fun subtree :: "node \<Rightarrow> node list" where
  "subtree (Element ns p l as cs) = Element ns p l as cs # concat (map subtree cs)"
| "subtree n = [n]"

fun descendants :: "document \<Rightarrow> node list" where
  "descendants (Document cs) = concat (map subtree cs)"

subsection \<open>Files, console and errors\<close>

datatype error = NotFoundError | ParseError | TypeError

datatype call = On string | Start

datatype crawl_event = Added string | Ignored string | Errored string nat | Finished

record world =
  files :: "string \<Rightarrow> string option"
  console :: "string list"
  listeners :: "(string \<times> (crawl_event \<Rightarrow> string)) list"
  calls :: "call list"

text \<open>
  What \<^verbatim>\<open>parser.parseFromString(sitemap, 'text/xml')\<close> gives the script: a document, or
  none. There is none when the parser throws, and when it returns \<^verbatim>\<open>undefined\<close>, as xmldom
  does for an empty source: then the next statement, the call of \<^verbatim>\<open>getElementsByTagName\<close>
  on it, throws a \<open>TypeError\<close>. Either way the script ends there with that error.
\<close>

type_synonym domparser = "string \<Rightarrow> string \<Rightarrow> error + document"

definition readFileSync :: "world \<Rightarrow> string \<Rightarrow> error + string" where
  "readFileSync w path = (case files w path of None \<Rightarrow> Inl NotFoundError | Some text \<Rightarrow> Inr text)"

definition writeFileSync :: "world \<Rightarrow> string \<Rightarrow> string \<Rightarrow> world" where
  "writeFileSync w path text = w\<lparr>files := (files w)(path \<mapsto> text)\<rparr>"

definition console_log :: "world \<Rightarrow> string \<Rightarrow> world" where
  "console_log w line = w\<lparr>console := console w @ [line]\<rparr>"

text \<open>A number inside a template literal is printed in decimal.\<close>

function decimal :: "nat \<Rightarrow> string" where
  "decimal n = (if n < 10 then [''0123456789'' ! n]
                else decimal (n div 10) @ [''0123456789'' ! (n mod 10)])"
  by pat_completeness auto
termination
  by (relation "measure (\<lambda>n. n)") auto

declare decimal.simps [simp del]

text \<open>\<^verbatim>\<open>Array.prototype.join\<close>: the empty string for an empty array; otherwise the first
  element, then the separator and the next element, for each further element.\<close>

definition join :: "string list \<Rightarrow> string \<Rightarrow> string" where
  "join xs sep = (case xs of [] \<Rightarrow> [] | x # rest \<Rightarrow> foldl (\<lambda>r e. r @ sep @ e) x rest)"

subsection \<open>The URL extractor (second half of the script)\<close>

text \<open>
  \<^verbatim>\<open>for (let i = 0; i < urlNodes.length; i++) { urls.push(urlNodes[i].textContent); }\<close>
\<close>

function urls_loop :: "node list \<Rightarrow> nat \<Rightarrow> string list \<Rightarrow> string list" where
  "urls_loop urlNodes i urls =
     (if i < length urlNodes
      then urls_loop urlNodes (i + 1) (urls @ [textContent (urlNodes ! i)])
      else urls)"
  by pat_completeness auto
termination
  by (relation "measure (\<lambda>(urlNodes, i, urls). length urlNodes - i)") auto

declare urls_loop.simps [simp del]

text \<open>The array \<open>urls\<close> when the loop over the selected nodes has ended.\<close>

definition urls :: "document \<Rightarrow> string list" where
  "urls xmlDoc = urls_loop (getElementsByTagName xmlDoc ''loc'') 0 []"

text \<open>
  The extractor returns the exception that ended it, if any, and the world it leaves.
  Neither \<^verbatim>\<open>readFileSync\<close> nor \<^verbatim>\<open>parseFromString\<close> is inside a \<^verbatim>\<open>try\<close>: an exception of
  either ends the script before \<^verbatim>\<open>writeFileSync\<close> is reached. The script does not look at
  the document it gets for signs of a failed parse: whatever the parser returns is used.
\<close>

definition extractor :: "domparser \<Rightarrow> world \<Rightarrow> error option \<times> world" where
  "extractor parseFromString w =
     (case readFileSync w ''sitemap.xml'' of
        Inl e \<Rightarrow> (Some e, w)
      | Inr sitemap \<Rightarrow>
          (case parseFromString sitemap ''text/xml'' of
             Inl e \<Rightarrow> (Some e, w)
           | Inr xmlDoc \<Rightarrow>
               (let w1 = writeFileSync w ''angular-docs-urls.txt'' (join (urls xmlDoc) [CHR 0x0A]);
                    w2 = console_log w1
                           (''Extracted '' @ decimal (length (urls xmlDoc)) @ '' URLs from the sitemap'')
                in (None, w2))))"

subsection \<open>The sitemap producer (first half of the script)\<close>

fun event_name :: "crawl_event \<Rightarrow> string" where
  "event_name (Added url) = ''add''"
| "event_name (Ignored url) = ''ignore''"
| "event_name (Errored url code) = ''error''"
| "event_name Finished = ''done''"

text \<open>
  The four listeners of the script, each giving the line it logs. A listener is called
  with the events of the name it is registered under; the equations for the other events
  only make the functions total and are not reached by the script.
\<close>

fun add_listener :: "crawl_event \<Rightarrow> string" where
  "add_listener (Added url) = ''Added: '' @ url"
| "add_listener (Ignored url) = ''Added: '' @ url"
| "add_listener _ = ''Added: undefined''"

fun ignore_listener :: "crawl_event \<Rightarrow> string" where
  "ignore_listener (Added url) = ''Ignored: '' @ url"
| "ignore_listener (Ignored url) = ''Ignored: '' @ url"
| "ignore_listener _ = ''Ignored: undefined''"

fun error_listener :: "crawl_event \<Rightarrow> string" where
  "error_listener (Errored url code) = ''Error: '' @ url @ '' ('' @ decimal code @ '')''"
| "error_listener _ = ''Error: undefined (undefined)''"

definition done_listener :: "crawl_event \<Rightarrow> string" where
  "done_listener ev = ''Sitemap generation completed!''"

definition on :: "string \<Rightarrow> (crawl_event \<Rightarrow> string) \<Rightarrow> world \<Rightarrow> world" where
  "on name listener w =
     w\<lparr>listeners := listeners w @ [(name, listener)], calls := calls w @ [On name]\<rparr>"

definition start :: "world \<Rightarrow> world" where
  "start w = w\<lparr>calls := calls w @ [Start]\<rparr>"

definition producer :: "world \<Rightarrow> world" where
  "producer w =
     start (on ''done'' done_listener (on ''error'' error_listener
       (on ''ignore'' ignore_listener (on ''add'' add_listener w))))"

text \<open>
  Emitting an event runs, in registration order, the listeners registered under the
  event's name; an event without a listener is dropped.
\<close>

definition emit :: "world \<Rightarrow> crawl_event \<Rightarrow> world" where
  "emit w ev =
     foldl (\<lambda>w' (name, listener). if name = event_name ev then console_log w' (listener ev) else w')
       w (listeners w)"

subsection \<open>The whole program\<close>

text \<open>
  \<^verbatim>\<open>generator.start()\<close> starts the crawler asynchronously: the call returns at once and the
  crawl proceeds from the event loop, which gets control only when the script has run to
  its last statement. A crawl is given by the progress events it will emit and the sitemap
  it writes when it completes, just before \<^verbatim>\<open>done\<close>. An uncaught exception of the script
  ends the process, and the crawl with it.
\<close>

record crawl =
  progress :: "crawl_event list"
  sitemap_xml :: string

definition script :: "domparser \<Rightarrow> world \<Rightarrow> error option \<times> world" where
  "script parseFromString w = extractor parseFromString (producer w)"

definition event_loop :: "crawl \<Rightarrow> world \<Rightarrow> world" where
  "event_loop c w =
     (if Start \<in> set (calls w)
      then emit (writeFileSync (foldl emit w (progress c)) ''sitemap.xml'' (sitemap_xml c)) Finished
      else w)"

definition program :: "domparser \<Rightarrow> crawl \<Rightarrow> world \<Rightarrow> error option \<times> world" where
  "program parseFromString c w =
     (case script parseFromString w of
        (Some e, w') \<Rightarrow> (Some e, w')
      | (None, w') \<Rightarrow> (None, event_loop c w'))"

definition initial :: "(string \<Rightarrow> string option) \<Rightarrow> world" where
  "initial fs = \<lparr>files = fs, console = [], listeners = [], calls = []\<rparr>"

section \<open>The specification's view of a sitemap\<close>

text \<open>
  The specification describes a sitemap document as a root \<^verbatim>\<open>urlset\<close> element holding
  \<^verbatim>\<open>url\<close> elements, each with a \<^verbatim>\<open>loc\<close> child whose text is the URL, and it takes element
  names by local name. The definitions of this section follow these words.
\<close>

definition has_local_name :: "string \<Rightarrow> node \<Rightarrow> bool" where
  "has_local_name name n = (localName n = Some name)"






section \<open>Sitemaps written without prefixes\<close>

text \<open>
  The script looks for the tag name \<^verbatim>\<open>loc\<close> as it is written, anywhere in the document.
  The definitions of this section describe the sitemaps on which that search meets the
  structure above: \<^verbatim>\<open>urlset\<close>, \<^verbatim>\<open>url\<close> and \<^verbatim>\<open>loc\<close> are written without a prefix, and
  the other children of an entry (\<^verbatim>\<open>lastmod\<close>, \<^verbatim>\<open>priority\<close>, extensions) hold no element
  with the tag name \<^verbatim>\<open>loc\<close>.
\<close>

definition named :: "string \<Rightarrow> node \<Rightarrow> bool" where
  "named name n = (tagName n = Some name)"





section \<open>The output file and documents built from lists\<close>

text \<open>Strings joined by a line feed, as the specification words the output file.\<close>

fun newline_joined :: "string list \<Rightarrow> string" where
  "newline_joined [] = []"
| "newline_joined [x] = x"
| "newline_joined (x # y # ys) = x @ [CHR 0x0A] @ newline_joined (y # ys)"

text \<open>The minimal sitemap document with the given strings as \<^verbatim>\<open>loc\<close> values, in order.\<close>

definition loc_element :: "string \<Rightarrow> node" where
  "loc_element u = Element None None ''loc'' [] [Text u]"

definition url_entry :: "string \<Rightarrow> node" where
  "url_entry u = Element None None ''url'' [] [loc_element u]"

definition sitemap_of :: "string list \<Rightarrow> document" where
  "sitemap_of us = Document [Element None None ''urlset'' [] (map url_entry us)]"

text \<open>The text of that document.\<close>

definition sitemap_text :: "string list \<Rightarrow> string" where
  "sitemap_text us =
     ''<urlset>'' @ concat (map (\<lambda>u. ''<url><loc>'' @ u @ ''</loc></url>'') us) @ ''</urlset>''"

text \<open>The selection by local name that the specification describes.\<close>

definition select_by_local_name :: "document \<Rightarrow> string \<Rightarrow> node list" where
  "select_by_local_name doc name = filter (has_local_name name) (descendants doc)"

text \<open>Elements written without a prefix whose local name is \<^verbatim>\<open>loc\<close>, in any namespace.\<close>

fun unprefixed_loc :: "node \<Rightarrow> bool" where
  "unprefixed_loc (Element ns None l as cs) = (l = ''loc'')"
| "unprefixed_loc _ = False"

text \<open>The line the script prints for a crawl event.\<close>

fun log_line :: "crawl_event \<Rightarrow> string" where
  "log_line (Added url) = ''Added: '' @ url"
| "log_line (Ignored url) = ''Ignored: '' @ url"
| "log_line (Errored url code) = ''Error: '' @ url @ '' ('' @ decimal code @ '')''"
| "log_line Finished = ''Sitemap generation completed!''"

section \<open>Concrete inputs\<close>

text \<open>
  A parser that reads one given text as one given document. It stands for the library
  where a run is evaluated on a concrete file. Like xmldom it has no document for the
  empty source. The runs below give it its own text or the empty source only; for any
  other text it throws nothing and answers with a document without elements.
\<close>

definition parser_for :: "string \<Rightarrow> document \<Rightarrow> domparser" where
  "parser_for xml doc source mimeType =
     (if source = xml then Inr doc
      else if source = [] then Inl TypeError
      else Inr (Document []))"

definition three_urls :: "string list" where
  "three_urls = [''https://angular.dev/'', ''https://angular.dev/guide/'', ''https://angular.dev/api/'']"

text \<open>
  A file in which the \<^verbatim>\<open>urlset\<close> element is never closed: not well-formed XML. The
  parser builds the tree as it reads and returns what it has at the end of the text.
\<close>

definition unclosed_xml :: string where
  "unclosed_xml = ''<urlset><url><loc>https://angular.dev/</loc></url>''"

definition unclosed_doc :: document where
  "unclosed_doc = sitemap_of [''https://angular.dev/'']"

text \<open>A directory with an output file of an earlier run and the given sitemap.\<close>

definition with_old_output :: "string \<Rightarrow> string \<Rightarrow> string option" where
  "with_old_output xml =
     [''sitemap.xml'' \<mapsto> xml, ''angular-docs-urls.txt'' \<mapsto> ''https://old.example/'']"


text \<open>A document whose only \<^verbatim>\<open>loc\<close> element is written with a prefix, \<^verbatim>\<open>x:loc\<close>.\<close>

definition prefixed_doc :: document where
  "prefixed_doc =
     Document [Element None None ''urlset'' []
       [Element None None ''url'' []
         [Element (Some ''urn:x'') (Some ''x'') ''loc'' [] [Text ''https://angular.dev/'']]]]"





text \<open>A crawl that finds one page, and a sitemap left behind by an earlier run.\<close>

definition one_page_crawl :: crawl where
  "one_page_crawl =
     \<lparr>progress = [Added ''https://angular.dev/''],
      sitemap_xml = sitemap_text [''https://angular.dev/'']\<rparr>"

definition stale_files :: "string \<Rightarrow> string option" where
  "stale_files = [''sitemap.xml'' \<mapsto> sitemap_text [''https://old.example/'']]"

section \<open>Properties of the library operations and of the loops\<close>

lemma urls_loop_drop:
  "urls_loop urlNodes i acc = acc @ map textContent (drop i urlNodes)"
proof (induction urlNodes i acc rule: urls_loop.induct)
  case (1 urlNodes i acc)
  show ?case
  proof (cases "i < length urlNodes")
    case True
    then have "drop i urlNodes = urlNodes ! i # drop (Suc i) urlNodes"
      by (simp add: Cons_nth_drop_Suc)
    with True "1" show ?thesis by (subst urls_loop.simps) simp
  next
    case False
    then show ?thesis by (subst urls_loop.simps) simp
  qed
qed

lemma urls_map: "urls doc = map textContent (getElementsByTagName doc ''loc'')"
  by (simp add: urls_def urls_loop_drop)

lemma foldl_sep: "foldl (\<lambda>r e. r @ sep @ e) (a @ b) xs = a @ foldl (\<lambda>r e. r @ sep @ e) b xs"
  by (induction xs arbitrary: b) simp_all

lemma join_newline: "join xs [CHR 0x0A] = newline_joined xs"
proof (induction xs rule: newline_joined.induct)
  case 1
  show ?case by (simp add: join_def)
next
  case (2 x)
  show ?case by (simp add: join_def)
next
  case (3 x y ys)
  have "join (x # y # ys) [CHR 0x0A] = foldl (\<lambda>r e. r @ [CHR 0x0A] @ e) ((x @ [CHR 0x0A]) @ y) ys"
    by (simp add: join_def)
  also have "\<dots> = (x @ [CHR 0x0A]) @ join (y # ys) [CHR 0x0A]"
    unfolding foldl_sep by (simp add: join_def)
  finally show ?case using 3 by simp
qed

lemma visit_filter: "name \<noteq> ''*'' \<Longrightarrow> visit name n = filter (named name) (subtree n)"
proof (induction name n rule: visit.induct)
  case (1 name ns p l as cs)
  let ?e = "Element ns p l as cs"
  have m: "map (visit name) cs = map (\<lambda>c. filter (named name) (subtree c)) cs"
    using 1 by simp
  have "visit name ?e = (if named name ?e then [?e] else []) @ concat (map (visit name) cs)"
    using 1(2) by (simp add: named_def del: tagName.simps)
  also have "\<dots> = filter (named name) (subtree ?e)"
    unfolding m by (simp add: filter_concat comp_def)
  finally show ?case .
qed (simp_all add: named_def)

lemma visit_filter_fun: "name \<noteq> ''*'' \<Longrightarrow> visit name = (\<lambda>n. filter (named name) (subtree n))"
  by (rule ext) (rule visit_filter)

lemma getElementsByTagName_filter:
  "name \<noteq> ''*'' \<Longrightarrow> getElementsByTagName doc name = filter (named name) (descendants doc)"
  by (cases doc) (simp add: visit_filter_fun filter_concat comp_def)



lemma colon_not_loc: "p @ CHR '':'' # l \<noteq> ''loc''"
proof
  assume "p @ CHR '':'' # l = ''loc''"
  then have "CHR '':'' \<in> set ''loc''"
    by (metis in_set_conv_decomp)
  then show False by simp
qed

lemma named_loc_unprefixed: "named ''loc'' n = unprefixed_loc n"
proof (cases n)
  case (Element ns p l as cs)
  then show ?thesis
    using colon_not_loc by (cases p) (simp_all add: named_def)
qed (simp_all add: named_def)






















lemma extractor_parsed:
  assumes "files w ''sitemap.xml'' = Some content"
    and "parseFromString content ''text/xml'' = Inr doc"
  shows "extractor parseFromString w =
    (None, w\<lparr>files := (files w)(''angular-docs-urls.txt'' \<mapsto> newline_joined (urls doc)),
             console := console w @
               [''Extracted '' @ decimal (length (urls doc)) @ '' URLs from the sitemap'']\<rparr>)"
  using assms
  by (simp add: extractor_def readFileSync_def writeFileSync_def console_log_def join_newline)

lemma decimal_small: "n < 10 \<Longrightarrow> decimal n = [''0123456789'' ! n]"
  by (subst decimal.simps) simp

lemma extractor_missing:
  "files w ''sitemap.xml'' = None \<Longrightarrow> extractor parseFromString w = (Some NotFoundError, w)"
  by (simp add: extractor_def readFileSync_def)

lemma extractor_throws:
  "files w ''sitemap.xml'' = Some content \<Longrightarrow> parseFromString content ''text/xml'' = Inl e \<Longrightarrow>
   extractor parseFromString w = (Some e, w)"
  by (simp add: extractor_def readFileSync_def)

lemma locs_of_sitemap:
  "getElementsByTagName (sitemap_of us) ''loc'' = map loc_element us"
proof -
  have "concat (map (visit ''loc'') (map url_entry us)) = map loc_element us"
    by (induction us) (simp_all add: url_entry_def loc_element_def)
  then show ?thesis by (simp add: sitemap_of_def)
qed

lemma urls_sitemap_of: "urls (sitemap_of us) = us"
proof -
  have "map (textContent \<circ> loc_element) us = us"
    by (induction us) (simp_all add: loc_element_def)
  then show ?thesis by (simp add: urls_map locs_of_sitemap)
qed

lemma extractor_cases:
  "extractor p w =
     (case files w ''sitemap.xml'' of
        None \<Rightarrow> (Some NotFoundError, w)
      | Some content \<Rightarrow>
          (case p content ''text/xml'' of
             Inl e \<Rightarrow> (Some e, w)
           | Inr doc \<Rightarrow>
               (None, w\<lparr>files := (files w)(''angular-docs-urls.txt'' \<mapsto> newline_joined (urls doc)),
                        console := console w @
                          [''Extracted '' @ decimal (length (urls doc)) @ '' URLs from the sitemap'']\<rparr>)))"
  by (simp add: extractor_missing extractor_throws extractor_parsed split: option.split sum.split)

lemma extractor_same_input:
  assumes "files w1 ''sitemap.xml'' = files w2 ''sitemap.xml''"
  shows "fst (extractor p w1) = fst (extractor p w2)"
    and "fst (extractor p w1) = None \<Longrightarrow>
         files (snd (extractor p w1)) ''angular-docs-urls.txt'' =
         files (snd (extractor p w2)) ''angular-docs-urls.txt''"
  using assms by (simp_all add: extractor_cases split: option.splits sum.splits)

lemma extractor_twice:
  "files (snd (extractor p (snd (extractor p w)))) = files (snd (extractor p w))"
  by (simp add: extractor_cases split: option.splits sum.splits)

lemma producer_listeners:
  "listeners (producer (initial fs)) =
     [(''add'', add_listener), (''ignore'', ignore_listener),
      (''error'', error_listener), (''done'', done_listener)]"
  by (simp add: producer_def on_def start_def initial_def)

lemma emit_four:
  assumes "listeners w =
     [(''add'', add_listener), (''ignore'', ignore_listener),
      (''error'', error_listener), (''done'', done_listener)]"
  shows "emit w ev = console_log w (log_line ev)"
  using assms by (cases ev) (simp_all add: emit_def done_listener_def)

lemma foldl_emit_four:
  assumes "listeners w =
     [(''add'', add_listener), (''ignore'', ignore_listener),
      (''error'', error_listener), (''done'', done_listener)]"
  shows "foldl emit w evs = w\<lparr>console := console w @ map log_line evs\<rparr>"
  using assms
proof (induction evs arbitrary: w)
  case Nil
  show ?case by simp
next
  case (Cons ev evs)
  have e: "emit w ev = console_log w (log_line ev)"
    using Cons.prems by (rule emit_four)
  have "listeners (console_log w (log_line ev)) = listeners w"
    by (simp add: console_log_def)
  with Cons.prems have "foldl emit (console_log w (log_line ev)) evs =
      (console_log w (log_line ev))\<lparr>console := console (console_log w (log_line ev)) @ map log_line evs\<rparr>"
    by (intro Cons.IH) simp
  then show ?case
    by (simp add: e console_log_def)
qed

lemma event_loop_started:
  assumes "listeners w =
     [(''add'', add_listener), (''ignore'', ignore_listener),
      (''error'', error_listener), (''done'', done_listener)]"
    and "Start \<in> set (calls w)"
  shows "event_loop c w =
     w\<lparr>files := (files w)(''sitemap.xml'' \<mapsto> sitemap_xml c),
       console := console w @ map log_line (progress c) @ [log_line Finished]\<rparr>"
  using assms
  by (simp add: event_loop_def foldl_emit_four emit_four writeFileSync_def console_log_def)

lemma producer_files: "files (producer w) = files w"
  by (simp add: producer_def on_def start_def)

lemma program_ignores_crawl:
  "fst (program p c (initial fs)) = fst (extractor p (initial fs)) \<and>
   files (snd (program p c (initial fs))) ''angular-docs-urls.txt'' =
   files (snd (extractor p (initial fs))) ''angular-docs-urls.txt''"
proof -
  have l: "listeners (producer (initial fs)) =
     [(''add'', add_listener), (''ignore'', ignore_listener),
      (''error'', error_listener), (''done'', done_listener)]"
    by (rule producer_listeners)
  have st: "Start \<in> set (calls (producer (initial fs)))"
    by (simp add: producer_def on_def start_def)
  have f: "files (producer (initial fs)) = files (initial fs)"
    by (rule producer_files)
  show ?thesis
  proof (cases "fs ''sitemap.xml''")
    case None
    then have "files (initial fs) ''sitemap.xml'' = None" by (simp add: initial_def)
    then show ?thesis
      by (simp add: program_def script_def extractor_missing f)
  next
    case (Some content)
    then have rd: "files (initial fs) ''sitemap.xml'' = Some content" by (simp add: initial_def)
    show ?thesis
    proof (cases "p content ''text/xml''")
      case (Inl e)
      with rd show ?thesis
        by (simp add: program_def script_def extractor_throws f)
    next
      case (Inr doc)
      with rd show ?thesis
        by (simp add: program_def script_def extractor_parsed f event_loop_started l st)
    qed
  qed
qed









section \<open>The claims\<close>




text \<open>
  C2, as amended. The extractor fails without writing exactly when it gets no document
  from the parser: it ends with the parser's error, or with the \<open>TypeError\<close> of the next
  statement when the parser returned nothing, and the world is as it was, so an output
  file of an earlier run keeps its bytes. Whenever the parser returns a document, for
  well-formed content or not, the run succeeds and writes the output file from it; the
  script makes no check of its own.
\<close>

theorem parse_result_decides_write:
  assumes "files w ''sitemap.xml'' = Some content"
  shows "(parseFromString content ''text/xml'' = Inl e \<longrightarrow>
           extractor parseFromString w = (Some e, w)) \<and>
         (parseFromString content ''text/xml'' = Inr doc \<longrightarrow>
           extractor parseFromString w =
             (None, w\<lparr>files := (files w)(''angular-docs-urls.txt'' \<mapsto> newline_joined (urls doc)),
                      console := console w @
                        [''Extracted '' @ decimal (length (urls doc)) @ '' URLs from the sitemap'']\<rparr>))"
  using assms by (simp add: extractor_throws extractor_parsed)

text \<open>
  An empty sitemap file, for which there is no document, and the file with the unclosed
  \<^verbatim>\<open>urlset\<close>, for which there is one; an output file of an earlier run is in place.
\<close>

theorem parse_result_decides_write_witness:
  "files (initial (with_old_output [])) ''sitemap.xml'' = Some [] \<and>
   parser_for unclosed_xml unclosed_doc [] ''text/xml'' = Inl TypeError \<and>
   extractor (parser_for unclosed_xml unclosed_doc) (initial (with_old_output [])) =
     (Some TypeError, initial (with_old_output [])) \<and>
   files (initial (with_old_output [])) ''angular-docs-urls.txt'' = Some ''https://old.example/'' \<and>
   files (initial (with_old_output unclosed_xml)) ''sitemap.xml'' = Some unclosed_xml \<and>
   parser_for unclosed_xml unclosed_doc unclosed_xml ''text/xml'' = Inr unclosed_doc \<and>
   fst (extractor (parser_for unclosed_xml unclosed_doc) (initial (with_old_output unclosed_xml))) = None \<and>
   files (snd (extractor (parser_for unclosed_xml unclosed_doc) (initial (with_old_output unclosed_xml))))
     ''angular-docs-urls.txt'' = Some ''https://angular.dev/''"
proof -
  let ?p = "parser_for unclosed_xml unclosed_doc"
  have rd0: "files (initial (with_old_output [])) ''sitemap.xml'' = Some []"
    by (simp add: initial_def with_old_output_def)
  have ps0: "?p [] ''text/xml'' = Inl TypeError"
    by (simp add: parser_for_def unclosed_xml_def)
  have old: "files (initial (with_old_output [])) ''angular-docs-urls.txt'' = Some ''https://old.example/''"
    by (simp add: initial_def with_old_output_def)
  have rd1: "files (initial (with_old_output unclosed_xml)) ''sitemap.xml'' = Some unclosed_xml"
    by (simp add: initial_def with_old_output_def)
  have ps1: "?p unclosed_xml ''text/xml'' = Inr unclosed_doc"
    by (simp add: parser_for_def)
  have u: "newline_joined (urls unclosed_doc) = ''https://angular.dev/''"
    by (simp add: unclosed_doc_def urls_sitemap_of)
  have fails: "extractor ?p (initial (with_old_output [])) = (Some TypeError, initial (with_old_output []))"
    using parse_result_decides_write [where w = "initial (with_old_output [])" and content = "[]"
        and parseFromString = ?p and e = TypeError] rd0 ps0
    by simp
  have writes: "extractor ?p (initial (with_old_output unclosed_xml)) =
      (None, (initial (with_old_output unclosed_xml))
         \<lparr>files := (files (initial (with_old_output unclosed_xml)))
                     (''angular-docs-urls.txt'' \<mapsto> newline_joined (urls unclosed_doc)),
          console := console (initial (with_old_output unclosed_xml)) @
             [''Extracted '' @ decimal (length (urls unclosed_doc)) @ '' URLs from the sitemap'']\<rparr>)"
    using parse_result_decides_write [where w = "initial (with_old_output unclosed_xml)"
        and content = unclosed_xml and parseFromString = ?p and doc = unclosed_doc] rd1 ps1
    by simp
  show ?thesis
    using rd0 ps0 old rd1 ps1 fails by (simp add: writes u)
qed

text \<open>
  C2 as stated, failure with a \<open>ParseError\<close> and no write on every content that is not
  well-formed XML, fails: on the sitemap whose \<^verbatim>\<open>urlset\<close> is never closed the parser
  returns the tree it has built, the run succeeds and the output file of the earlier run
  is overwritten.
\<close>

theorem unclosed_sitemap_overwrites_output:
  "files (initial (with_old_output unclosed_xml)) ''angular-docs-urls.txt'' = Some ''https://old.example/'' \<and>
   fst (extractor (parser_for unclosed_xml unclosed_doc) (initial (with_old_output unclosed_xml))) = None \<and>
   files (snd (extractor (parser_for unclosed_xml unclosed_doc) (initial (with_old_output unclosed_xml))))
     ''angular-docs-urls.txt'' = Some ''https://angular.dev/'' \<and>
   extractor (parser_for unclosed_xml unclosed_doc) (initial (with_old_output unclosed_xml)) \<noteq>
     (Some ParseError, initial (with_old_output unclosed_xml))"
proof -
  have u: "newline_joined (urls unclosed_doc) = ''https://angular.dev/''"
    by (simp add: unclosed_doc_def urls_sitemap_of)
  have old: "files (initial (with_old_output unclosed_xml)) ''angular-docs-urls.txt'' = Some ''https://old.example/''"
    by (simp add: initial_def with_old_output_def)
  have ok: "fst (extractor (parser_for unclosed_xml unclosed_doc) (initial (with_old_output unclosed_xml))) = None"
    by (simp add: extractor_cases initial_def with_old_output_def parser_for_def)
  have out: "files (snd (extractor (parser_for unclosed_xml unclosed_doc) (initial (with_old_output unclosed_xml))))
     ''angular-docs-urls.txt'' = Some ''https://angular.dev/''"
    by (simp add: extractor_cases initial_def with_old_output_def parser_for_def u)
  from ok have "extractor (parser_for unclosed_xml unclosed_doc) (initial (with_old_output unclosed_xml)) \<noteq>
     (Some ParseError, initial (with_old_output unclosed_xml))"
    by auto
  with old ok out show ?thesis by blast
qed

text \<open>
  C3. The claim is that the extractor begins only after the crawl has finished and
  \<^verbatim>\<open>done\<close> was signalled. The script calls \<^verbatim>\<open>generator.start()\<close> and goes on to
  \<^verbatim>\<open>readFileSync\<close> in the same run: the crawl has only been scheduled. In a fresh directory
  the extractor fails with \<open>NotFoundError\<close> before any crawl event, which ends the process
  and the crawl. With a sitemap of an earlier run in place the extractor lists the old
  file, and its summary line is printed before the lines of the crawl. In every run the
  outcome of the extractor and the bytes of the output file are those of the extractor
  run on the files found at the start: the crawl has no part in them.
\<close>

theorem extractor_runs_before_crawl:
  "program (parser_for (sitemap_text [''https://angular.dev/'']) (sitemap_of [''https://angular.dev/'']))
     one_page_crawl (initial Map.empty) = (Some NotFoundError, producer (initial Map.empty)) \<and>
   console (producer (initial Map.empty)) = [] \<and>
   console (snd (program (parser_for (sitemap_text [''https://old.example/'']) (sitemap_of [''https://old.example/'']))
     one_page_crawl (initial stale_files))) =
     [''Extracted 1 URLs from the sitemap'', ''Added: https://angular.dev/'', ''Sitemap generation completed!''] \<and>
   files (snd (program (parser_for (sitemap_text [''https://old.example/'']) (sitemap_of [''https://old.example/'']))
     one_page_crawl (initial stale_files))) ''angular-docs-urls.txt'' = Some ''https://old.example/'' \<and>
   fst (program p c (initial fs)) = fst (extractor p (initial fs)) \<and>
   files (snd (program p c (initial fs))) ''angular-docs-urls.txt'' =
     files (snd (extractor p (initial fs))) ''angular-docs-urls.txt''"
proof -
  let ?p = "parser_for (sitemap_text [''https://angular.dev/'']) (sitemap_of [''https://angular.dev/''])"
  let ?q = "parser_for (sitemap_text [''https://old.example/'']) (sitemap_of [''https://old.example/''])"
  have "files (producer (initial Map.empty)) ''sitemap.xml'' = None"
    by (simp add: producer_files initial_def)
  then have a: "script ?p (initial Map.empty) = (Some NotFoundError, producer (initial Map.empty))"
    by (simp add: script_def extractor_missing)
  have b: "console (producer (initial Map.empty)) = []"
    by (simp add: producer_def on_def start_def initial_def)
  have rd: "files (producer (initial stale_files)) ''sitemap.xml'' = Some (sitemap_text [''https://old.example/''])"
    by (simp add: producer_files initial_def stale_files_def)
  have ps: "?q (sitemap_text [''https://old.example/'']) ''text/xml'' = Inr (sitemap_of [''https://old.example/''])"
    by (simp add: parser_for_def)
  have d: "decimal (Suc 0) = ''1''" by (simp add: decimal_small)
  have c: "script ?q (initial stale_files) =
    (None, (producer (initial stale_files))
       \<lparr>files := (files (producer (initial stale_files)))(''angular-docs-urls.txt'' \<mapsto> ''https://old.example/''),
        console := console (producer (initial stale_files)) @ [''Extracted 1 URLs from the sitemap'']\<rparr>)"
    unfolding script_def using rd ps by (simp add: extractor_parsed urls_sitemap_of d)
  have l: "listeners (producer (initial stale_files)) =
     [(''add'', add_listener), (''ignore'', ignore_listener),
      (''error'', error_listener), (''done'', done_listener)]"
    by (rule producer_listeners)
  have st: "Start \<in> set (calls (producer (initial stale_files)))"
    by (simp add: producer_def on_def start_def)
  have c0: "console (producer (initial stale_files)) = []"
    by (simp add: producer_def on_def start_def initial_def)
  show ?thesis
    using a b program_ignores_crawl [of p c fs]
    by (simp add: program_def c event_loop_started l st c0 one_page_crawl_def producer_files)
qed

text \<open>
  C4. When \<^verbatim>\<open>sitemap.xml\<close> does not exist, the extractor ends with \<open>NotFoundError\<close> and the
  world is as it was: the output file is neither created nor modified.
\<close>

theorem missing_input_no_write:
  assumes "files w ''sitemap.xml'' = None"
  shows "extractor parseFromString w = (Some NotFoundError, w)"
  using assms by (rule extractor_missing)

text \<open>
  An empty directory: the run fails and no output file exists afterwards.
\<close>

theorem missing_input_no_write_witness:
  "files (initial Map.empty) ''sitemap.xml'' = None \<and>
   extractor (parser_for (sitemap_text three_urls) (sitemap_of three_urls)) (initial Map.empty) =
     (Some NotFoundError, initial Map.empty) \<and>
   files (snd (extractor (parser_for (sitemap_text three_urls) (sitemap_of three_urls)) (initial Map.empty)))
     ''angular-docs-urls.txt'' = None"
proof -
  have rd: "files (initial Map.empty) ''sitemap.xml'' = None"
    by (simp add: initial_def)
  have ex: "extractor (parser_for (sitemap_text three_urls) (sitemap_of three_urls)) (initial Map.empty) =
     (Some NotFoundError, initial Map.empty)"
    using missing_input_no_write [where w = "initial Map.empty"
        and parseFromString = "parser_for (sitemap_text three_urls) (sitemap_of three_urls)"] rd
    by simp
  show ?thesis using rd ex by (simp add: initial_def)
qed

text \<open>
  C5, as amended. The extractor selects, in document order, exactly the elements whose
  tag name as written is \<^verbatim>\<open>loc\<close>: the elements without a prefix whose local name is
  \<^verbatim>\<open>loc\<close>, in whatever namespace they are.
\<close>

theorem selects_by_tag_name:
  "getElementsByTagName doc ''loc'' = filter unprefixed_loc (descendants doc)"
proof -
  have "named ''loc'' = unprefixed_loc"
    by (rule ext) (rule named_loc_unprefixed)
  then show ?thesis by (simp add: getElementsByTagName_filter)
qed

text \<open>
  C5 as stated, selection by local name whatever the prefix, fails: an element written
  \<^verbatim>\<open>x:loc\<close> has the local name \<^verbatim>\<open>loc\<close> and is not selected.
\<close>

theorem prefixed_loc_not_selected:
  "getElementsByTagName prefixed_doc ''loc'' = [] \<and>
   select_by_local_name prefixed_doc ''loc'' =
     [Element (Some ''urn:x'') (Some ''x'') ''loc'' [] [Text ''https://angular.dev/'']] \<and>
   getElementsByTagName prefixed_doc ''loc'' \<noteq> select_by_local_name prefixed_doc ''loc''"
  by (simp add: prefixed_doc_def select_by_local_name_def has_local_name_def)

text \<open>
  C6. When the file parses and the document has no \<^verbatim>\<open>loc\<close> element, the extractor
  succeeds, writes the empty string to the output file and reports the count 0.
\<close>

theorem no_loc_empty_output:
  assumes "files w ''sitemap.xml'' = Some content"
    and "parseFromString content ''text/xml'' = Inr doc"
    and "getElementsByTagName doc ''loc'' = []"
  shows "extractor parseFromString w =
    (None, w\<lparr>files := (files w)(''angular-docs-urls.txt'' \<mapsto> []),
             console := console w @ [''Extracted 0 URLs from the sitemap'']\<rparr>)"
proof -
  from assms(3) have "urls doc = []" by (simp add: urls_map)
  moreover have "decimal 0 = ''0''" by (simp add: decimal_small)
  ultimately show ?thesis using assms(1,2) by (simp add: extractor_parsed)
qed

text \<open>
  A \<^verbatim>\<open>urlset\<close> without entries.
\<close>

theorem no_loc_empty_output_witness:
  "files (initial [''sitemap.xml'' \<mapsto> sitemap_text []]) ''sitemap.xml'' = Some (sitemap_text []) \<and>
   parser_for (sitemap_text []) (sitemap_of []) (sitemap_text []) ''text/xml'' = Inr (sitemap_of []) \<and>
   getElementsByTagName (sitemap_of []) ''loc'' = [] \<and>
   extractor (parser_for (sitemap_text []) (sitemap_of [])) (initial [''sitemap.xml'' \<mapsto> sitemap_text []]) =
   (None,
    \<lparr>files = [''sitemap.xml'' \<mapsto> sitemap_text [], ''angular-docs-urls.txt'' \<mapsto> []],
     console = [''Extracted 0 URLs from the sitemap''], listeners = [], calls = []\<rparr>)"
proof -
  let ?w = "initial [''sitemap.xml'' \<mapsto> sitemap_text []]"
  have rd: "files ?w ''sitemap.xml'' = Some (sitemap_text [])"
    by (simp add: initial_def)
  have ps: "parser_for (sitemap_text []) (sitemap_of []) (sitemap_text []) ''text/xml'' = Inr (sitemap_of [])"
    by (simp add: parser_for_def)
  have no: "getElementsByTagName (sitemap_of []) ''loc'' = []"
    by (simp add: sitemap_of_def)
  show ?thesis
    using no_loc_empty_output [where w = ?w and content = "sitemap_text []"
        and parseFromString = "parser_for (sitemap_text []) (sitemap_of [])" and doc = "sitemap_of []"]
      rd ps no
    by simp (simp add: initial_def)
qed



text \<open>
  C8. Round trip: when the file parses to the minimal sitemap built from a list of
  strings, the extractor's \<open>urls\<close> is that list, in the same order, and the output file
  holds it joined by line feeds.
\<close>

theorem round_trip:
  assumes "files w ''sitemap.xml'' = Some content"
    and "parseFromString content ''text/xml'' = Inr (sitemap_of us)"
  shows "urls (sitemap_of us) = us \<and>
    extractor parseFromString w =
    (None, w\<lparr>files := (files w)(''angular-docs-urls.txt'' \<mapsto> newline_joined us),
             console := console w @
               [''Extracted '' @ decimal (length us) @ '' URLs from the sitemap'']\<rparr>)"
  using assms by (simp add: extractor_parsed urls_sitemap_of)

text \<open>
  Two URLs through the round trip.
\<close>

theorem round_trip_witness:
  "files (initial [''sitemap.xml'' \<mapsto> sitemap_text [''https://angular.dev/'', ''https://angular.dev/api/'']])
     ''sitemap.xml'' = Some (sitemap_text [''https://angular.dev/'', ''https://angular.dev/api/'']) \<and>
   parser_for (sitemap_text [''https://angular.dev/'', ''https://angular.dev/api/''])
      (sitemap_of [''https://angular.dev/'', ''https://angular.dev/api/''])
      (sitemap_text [''https://angular.dev/'', ''https://angular.dev/api/'']) ''text/xml''
     = Inr (sitemap_of [''https://angular.dev/'', ''https://angular.dev/api/'']) \<and>
   urls (sitemap_of [''https://angular.dev/'', ''https://angular.dev/api/'']) =
     [''https://angular.dev/'', ''https://angular.dev/api/''] \<and>
   files (snd (extractor
      (parser_for (sitemap_text [''https://angular.dev/'', ''https://angular.dev/api/''])
         (sitemap_of [''https://angular.dev/'', ''https://angular.dev/api/'']))
      (initial [''sitemap.xml'' \<mapsto> sitemap_text [''https://angular.dev/'', ''https://angular.dev/api/'']])))
     ''angular-docs-urls.txt'' = Some (''https://angular.dev/'' @ [CHR 0x0A] @ ''https://angular.dev/api/'')"
proof -
  let ?us = "[''https://angular.dev/'', ''https://angular.dev/api/'']"
  let ?w = "initial [''sitemap.xml'' \<mapsto> sitemap_text ?us]"
  let ?p = "parser_for (sitemap_text ?us) (sitemap_of ?us)"
  have rd: "files ?w ''sitemap.xml'' = Some (sitemap_text ?us)"
    by (simp add: initial_def)
  have ps: "?p (sitemap_text ?us) ''text/xml'' = Inr (sitemap_of ?us)"
    by (simp add: parser_for_def)
  show ?thesis
    using round_trip [where w = ?w and content = "sitemap_text ?us"
        and parseFromString = ?p and us = ?us] rd ps
    by simp
qed

text \<open>
  C9. The output is a function of the content of \<^verbatim>\<open>sitemap.xml\<close>: two runs on worlds
  with the same sitemap end alike and, when they succeed, write the same bytes; and a
  second run after a first leaves every file as the first run left it.
\<close>

theorem extractor_idempotent:
  assumes "files w1 ''sitemap.xml'' = files w2 ''sitemap.xml''"
  shows "fst (extractor p w1) = fst (extractor p w2) \<and>
    (fst (extractor p w1) = None \<longrightarrow>
       files (snd (extractor p w1)) ''angular-docs-urls.txt'' =
       files (snd (extractor p w2)) ''angular-docs-urls.txt'') \<and>
    files (snd (extractor p (snd (extractor p w1)))) = files (snd (extractor p w1))"
  using extractor_same_input [OF assms] extractor_twice by blast

text \<open>
  The same sitemap with and without an output file of an earlier run.
\<close>

theorem extractor_idempotent_witness:
  "files (initial [''sitemap.xml'' \<mapsto> sitemap_text three_urls]) ''sitemap.xml'' =
   files (initial [''sitemap.xml'' \<mapsto> sitemap_text three_urls,
                   ''angular-docs-urls.txt'' \<mapsto> ''https://old.example/'']) ''sitemap.xml'' \<and>
   fst (extractor (parser_for (sitemap_text three_urls) (sitemap_of three_urls))
          (initial [''sitemap.xml'' \<mapsto> sitemap_text three_urls])) = None \<and>
   files (snd (extractor (parser_for (sitemap_text three_urls) (sitemap_of three_urls))
          (initial [''sitemap.xml'' \<mapsto> sitemap_text three_urls]))) ''angular-docs-urls.txt'' =
   files (snd (extractor (parser_for (sitemap_text three_urls) (sitemap_of three_urls))
          (initial [''sitemap.xml'' \<mapsto> sitemap_text three_urls,
                    ''angular-docs-urls.txt'' \<mapsto> ''https://old.example/'']))) ''angular-docs-urls.txt'' \<and>
   files (snd (extractor (parser_for (sitemap_text three_urls) (sitemap_of three_urls))
     (snd (extractor (parser_for (sitemap_text three_urls) (sitemap_of three_urls))
          (initial [''sitemap.xml'' \<mapsto> sitemap_text three_urls]))))) =
   files (snd (extractor (parser_for (sitemap_text three_urls) (sitemap_of three_urls))
          (initial [''sitemap.xml'' \<mapsto> sitemap_text three_urls])))"
proof -
  let ?p = "parser_for (sitemap_text three_urls) (sitemap_of three_urls)"
  let ?w1 = "initial [''sitemap.xml'' \<mapsto> sitemap_text three_urls]"
  let ?w2 = "initial [''sitemap.xml'' \<mapsto> sitemap_text three_urls,
                      ''angular-docs-urls.txt'' \<mapsto> ''https://old.example/'']"
  have same: "files ?w1 ''sitemap.xml'' = files ?w2 ''sitemap.xml''"
    by (simp add: initial_def)
  have rd: "files ?w1 ''sitemap.xml'' = Some (sitemap_text three_urls)"
    by (simp add: initial_def)
  have ps: "?p (sitemap_text three_urls) ''text/xml'' = Inr (sitemap_of three_urls)"
    by (simp add: parser_for_def)
  have ok: "fst (extractor ?p ?w1) = None"
    using rd ps by (simp add: extractor_parsed)
  show ?thesis
    using extractor_idempotent [where ?w1.0 = ?w1 and ?w2.0 = ?w2 and p = ?p] same ok
    by simp
qed

text \<open>
  C10. The calls the script makes on the generator are the four registrations, for
  \<^verbatim>\<open>add\<close>, \<^verbatim>\<open>ignore\<close>, \<^verbatim>\<open>error\<close> and \<^verbatim>\<open>done\<close>, and then \<^verbatim>\<open>start\<close>. So every
  event the started crawler emits finds its listener: each is logged with its line, and
  a whole crawl is logged event by event.
\<close>

theorem listeners_before_start:
  "calls (producer w) = calls w @ [On ''add'', On ''ignore'', On ''error'', On ''done'', Start] \<and>
   map fst (listeners (producer (initial fs))) = [''add'', ''ignore'', ''error'', ''done''] \<and>
   console (emit (producer (initial fs)) ev) = [log_line ev] \<and>
   console (event_loop c (producer (initial fs))) = map log_line (progress c @ [Finished])"
proof -
  have st: "Start \<in> set (calls (producer (initial fs)))"
    by (simp add: producer_def on_def start_def)
  have c0: "console (producer (initial fs)) = []"
    by (simp add: producer_def on_def start_def initial_def)
  have "calls (producer w) = calls w @ [On ''add'', On ''ignore'', On ''error'', On ''done'', Start]"
    by (simp add: producer_def on_def start_def)
  moreover have "map fst (listeners (producer (initial fs))) = [''add'', ''ignore'', ''error'', ''done'']"
    by (simp add: producer_listeners)
  moreover have "console (emit (producer (initial fs)) ev) = [log_line ev]"
    by (simp add: emit_four [OF producer_listeners] console_log_def c0)
  moreover have "console (event_loop c (producer (initial fs))) = map log_line (progress c @ [Finished])"
    by (simp add: event_loop_started [OF producer_listeners st] c0)
  ultimately show ?thesis by blast
qed

end
